theory Spec2Isabelle
  imports Complex_Main
begin

section \<open>JavaScript values used by the front end (src/src/main.js)\<close>

text \<open>
  Strings are \<open>string\<close> (one \<open>char\<close> per code unit); \<open>null\<close> and \<open>undefined\<close>
  are \<open>None\<close> of an option type. A JavaScript number is either \<open>NaN\<close>, an infinity
  or a finite value; the front end only passes numbers along, so the finite values are
  kept as rationals.
\<close>

datatype number = NaN | PosInfinity | NegInfinity | Finite rat

text \<open>A promise that settles: \<open>await\<close> either throws the rejection or yields the value.\<close>

datatype 'a settled = Rejected string | Resolved 'a

text \<open>\<open>s || null\<close> for a string \<open>s\<close>: the empty string is the only falsy string.\<close>

definition or_null :: "string \<Rightarrow> string option" where
  "or_null s = (if s = [] then None else Some s)"

text \<open>\<open>String.prototype.startsWith\<close>.\<close>

definition startsWith :: "string \<Rightarrow> string \<Rightarrow> bool" where
  "startsWith s p = (take (length p) s = p)"

text \<open>
  \<open>String.prototype.trim\<close>: white space and line terminators are dropped at both ends
  (of the code units a \<open>char\<close> can hold: TAB, LF, VT, FF, CR, SPACE and NBSP).
\<close>

definition is_space :: "char \<Rightarrow> bool" where
  "is_space c = (of_char c \<in> {9, 10, 11, 12, 13, 32, 160 :: nat})"

definition trim :: "string \<Rightarrow> string" where
  "trim s = rev (dropWhile is_space (rev (dropWhile is_space s)))"

text \<open>\<open>String(n)\<close> for an array length \<open>n\<close>: its decimal digits.\<close>

fun digits :: "nat \<Rightarrow> string" where
  "digits n =
     (if n < 10 then [char_of (48 + n)]
      else digits (n div 10) @ [char_of (48 + n mod 10)])"

declare digits.simps [simp del]

text \<open>
  Property lookup \<open>obj[key]\<close> on an object literal: an own property wins; otherwise the
  key is looked up on \<open>Object.prototype\<close>, whose members are functions (and, for
  \<open>__proto__\<close>, the prototype itself), none of them \<open>null\<close> or \<open>undefined\<close>; otherwise
  the result is \<open>undefined\<close>.
\<close>

definition object_prototype_keys :: "string list" where
  "object_prototype_keys =
     [''constructor'', ''__defineGetter__'', ''__defineSetter__'', ''hasOwnProperty'',
      ''__lookupGetter__'', ''__lookupSetter__'', ''isPrototypeOf'',
      ''propertyIsEnumerable'', ''toString'', ''valueOf'', ''__proto__'',
      ''toLocaleString'']"

datatype display = Text string | Prototype_member string

definition lookup_or :: "(string \<times> string) list \<Rightarrow> string \<Rightarrow> string \<Rightarrow> display" where
  \<comment> \<open>\<open>obj[key] ?? fallback\<close>\<close>
  "lookup_or obj key fallback =
     (case map_of obj key of
        Some v \<Rightarrow> Text v
      | None \<Rightarrow>
          if key \<in> set object_prototype_keys then Prototype_member key
          else Text fallback)"

section \<open>Helpers\<close>

definition status_values :: "string list" where
  "status_values =
     [''NotStarted'', ''Playing'', ''Completed'', ''Dropped'', ''Backlog'', ''Wishlist'']"

definition statusClass :: "string \<Rightarrow> display" where
  "statusClass status =
     lookup_or
       [(''Playing'', ''status--playing''), (''Completed'', ''status--completed''),
        (''Dropped'', ''status--dropped''), (''Backlog'', ''status--backlog''),
        (''Wishlist'', ''status--wishlist''), (''NotStarted'', ''status--notstarted'')]
       status ''status--notstarted''"

definition statusLabel :: "string \<Rightarrow> display" where
  "statusLabel status =
     lookup_or
       [(''NotStarted'', ''Not Started''), (''Playing'', ''Playing''),
        (''Completed'', ''Completed''), (''Dropped'', ''Dropped''),
        (''Backlog'', ''Backlog''), (''Wishlist'', ''Wishlist'')]
       status status"

definition is_remote :: "string \<Rightarrow> bool" where
  "is_remote path = (startsWith path ''http://'' \<or> startsWith path ''https://'')"

text \<open>
  \<open>resolveCover(path)\<close>. \<open>convertFileSrc\<close> is Tauri's (\<open>window.__TAURI__.core\<close>), so it
  is a parameter. The argument is \<open>None\<close> for \<open>null\<close>/\<open>undefined\<close>.
\<close>

definition resolveCover :: "(string \<Rightarrow> string) \<Rightarrow> string option \<Rightarrow> string option" where
  "resolveCover convertFileSrc path =
     (case path of
        None \<Rightarrow> None
      | Some p \<Rightarrow>
          if p = [] then None
          else if is_remote p then Some p
          else Some (convertFileSrc p))"

section \<open>State\<close>

record game =
  g_id :: int
  g_title :: string
  g_franchise :: "string option"
  g_sequence_in_franchise :: "number option"
  g_platform :: string
  g_release_date :: "string option"
  g_developer :: "string option"
  g_publisher :: "string option"
  g_status :: string
  g_progress_percent :: "number option"
  g_playtime_hours :: "number option"
  g_rating :: "number option"
  g_notes :: "string option"
  g_cover_art_path :: "string option"
  g_screenshots :: "string list"
  g_genres :: "string list"
  g_created_at :: string
  g_updated_at :: string

record current_filter =
  cf_query :: string
  cf_status :: string
  cf_platform :: string
  cf_franchise :: string
  cf_genre :: string
  sortBy :: string
  sortAsc :: bool

record app_state =
  games :: "game list"
  allPlatforms :: "string list"
  allFranchises :: "string list"
  allGenres :: "string list"
  currentFilter :: current_filter
  activeView :: string
  selectedGameId :: "int option"
  editingGameId :: "int option"
  pendingDeleteId :: "int option"
  formGenres :: "string list"
  formRating :: "number option"
  isListView :: bool

definition initial_state :: app_state where
  "initial_state =
     \<lparr>games = [], allPlatforms = [], allFranchises = [], allGenres = [],
      currentFilter =
        \<lparr>cf_query = [], cf_status = [], cf_platform = [], cf_franchise = [],
         cf_genre = [], sortBy = ''UpdatedAt'', sortAsc = False\<rparr>,
      activeView = ''library'', selectedGameId = None, editingGameId = None,
      pendingDeleteId = None, formGenres = [], formRating = None, isListView = False\<rparr>"

section \<open>API calls\<close>

text \<open>The \<open>filter\<close> object \<open>loadGames\<close> passes to \<open>search_games\<close>.\<close>

record search_filter =
  query :: "string option"
  status :: "string option"
  platform :: "string option"
  franchise :: "string option"
  genre :: "string option"
  sort_by :: string
  sort_asc :: bool

definition search_filter_of :: "current_filter \<Rightarrow> search_filter" where
  "search_filter_of f =
     \<lparr>query = or_null (cf_query f), status = or_null (cf_status f),
      platform = or_null (cf_platform f), franchise = or_null (cf_franchise f),
      genre = or_null (cf_genre f), sort_by = sortBy f, sort_asc = sortAsc f\<rparr>"

text \<open>What a handler does besides updating \<open>state\<close>, in the order it does it.\<close>

datatype effect =
    Invoke_search_games search_filter
  | Invoke_process_cover_image string
  | Console_error string string
  | Show_toast string string

text \<open>
  \<open>loadGames()\<close>. The backend command behind \<open>invoke("search_games", ...)\<close> is the
  parameter \<open>search_games\<close>; a rejection is the branch \<open>catch (e)\<close>.
\<close>

definition loadGames ::
  "(search_filter \<Rightarrow> game list settled) \<Rightarrow> app_state \<Rightarrow> app_state \<times> effect list" where
  "loadGames search_games st =
     (let flt = search_filter_of (currentFilter st)
      in case search_games flt of
           Resolved gs \<Rightarrow> (st\<lparr>games := gs\<rparr>, [Invoke_search_games flt])
         | Rejected e \<Rightarrow>
             (st\<lparr>games := []\<rparr>,
              [Invoke_search_games flt,
               Console_error ''search_games failed:'' e,
               Show_toast ''Failed to load games'' ''error'']))"

section \<open>Render: game grid / list\<close>

text \<open>
  What \<open>renderGames()\<close> puts on the page: the text of \<open>#gameCount\<close>, the games whose
  cards fill \<open>#gameGrid\<close> (in order), and whether \<open>#emptyState\<close> is shown.
\<close>

record rendered =
  count_text :: string
  cards :: "game list"
  empty_shown :: bool

definition view_filter :: "string \<Rightarrow> game list \<Rightarrow> game list" where
  "view_filter view gs =
     (let gs1 = (if view = ''backlog'' then filter (\<lambda>g. g_status g = ''Backlog'') gs else gs);
          gs2 = (if view = ''wishlist'' then filter (\<lambda>g. g_status g = ''Wishlist'') gs1 else gs1)
      in gs2)"

definition renderGames :: "app_state \<Rightarrow> rendered" where
  "renderGames st =
     (let gs = view_filter (activeView st) (games st);
          n = length gs
      in \<lparr>count_text = digits n @ '' game'' @ (if n \<noteq> 1 then ''s'' else ''''),
          cards = gs,
          empty_shown = (n = 0)\<rparr>)"

section \<open>Stats view\<close>

text \<open>
  The "By Status" card of \<open>renderStats()\<close>: six rows, each a label and the property of
  \<open>stats.by_status\<close> it prints (\<open>None\<close> when the object has no such property, which the
  template prints as \<open>undefined\<close>). The object is the association list of its properties.
\<close>

definition status_breakdown :: "(string \<times> nat) list \<Rightarrow> (string \<times> nat option) list" where
  "status_breakdown by_status =
     [(''Playing'', map_of by_status ''playing''),
      (''Completed'', map_of by_status ''completed''),
      (''Backlog'', map_of by_status ''backlog''),
      (''Wishlist'', map_of by_status ''wishlist''),
      (''Dropped'', map_of by_status ''dropped''),
      (''Not Started'', map_of by_status ''not_started'')]"

section \<open>Add / edit modal\<close>

text \<open>
  The page as the modal's handlers read and write it: the \<open>value\<close> of each field of
  \<open>#gameForm\<close> (named by its element id), the \<open>.status-opt\<close> buttons of \<open>#statusPicker\<close>
  in document order (\<open>dataset.val\<close>, \<open>None\<close> for a button without the attribute, and whether
  the class \<open>active\<close> is set), and whether \<open>#modalBackdrop\<close> is open.
\<close>

record status_opt =
  val :: "string option"
  active :: bool

record page =
  f_title :: string
  f_franchise :: string
  f_sequence :: string
  f_platform :: string
  f_release_date :: string
  f_developer :: string
  f_publisher :: string
  f_progress :: string
  f_playtime :: string
  f_notes :: string
  f_cover_art_path :: string
  statusPicker :: "status_opt list"
  modal_open :: bool

text \<open>\<open>b.classList.toggle("active", b.dataset.val === v)\<close> over every button.\<close>

definition toggle_status :: "string \<Rightarrow> status_opt list \<Rightarrow> status_opt list" where
  "toggle_status v bs = map (\<lambda>b. b\<lparr>active := (val b = Some v)\<rparr>) bs"

text \<open>A number is falsy when it is \<open>NaN\<close> or zero.\<close>

definition falsy :: "number \<Rightarrow> bool" where
  "falsy n = (n = NaN \<or> n = Finite 0)"

definition str_or_empty :: "string option \<Rightarrow> string" where
  \<comment> \<open>\<open>s || ""\<close>\<close>
  "str_or_empty s = (case s of None \<Rightarrow> [] | Some t \<Rightarrow> t)"

text \<open>
  \<open>openModal(id)\<close>. \<open>form.reset()\<close> restores the defaults of the page's markup, which is
  not part of the script: it is the parameter \<open>reset\<close>. \<open>String\<close> is the conversion of a
  number assigned to a field's \<open>value\<close>. An \<open>id\<close> of \<open>None\<close> is the call \<open>openModal()\<close>.
  A field holds the string the script assigns to it; what an element of a given input
  type does to an assigned value is the browser's and is not modelled.
\<close>

definition openModal ::
  "(page \<Rightarrow> page) \<Rightarrow> (number \<Rightarrow> string) \<Rightarrow> int option \<Rightarrow> page \<Rightarrow> app_state
     \<Rightarrow> page \<times> app_state" where
  "openModal reset String ident pg st =
     (let st1 = st\<lparr>editingGameId := ident, formGenres := [], formRating := None\<rparr>;
          pg0 = reset pg;
          pg1 = pg0\<lparr>statusPicker := toggle_status ''NotStarted'' (statusPicker pg0)\<rparr>
      in if ident = None \<or> ident = Some 0 then (pg1\<lparr>modal_open := True\<rparr>, st1)
         else
           (case find (\<lambda>g. Some (g_id g) = ident) (games st1) of
              None \<Rightarrow> (pg1, st1)
            | Some game \<Rightarrow>
                (pg1\<lparr>f_title := g_title game,
                     f_franchise := str_or_empty (g_franchise game),
                     f_sequence :=
                       (case g_sequence_in_franchise game of
                          None \<Rightarrow> []
                        | Some n \<Rightarrow> if falsy n then [] else String n),
                     f_platform := g_platform game,
                     f_release_date := str_or_empty (g_release_date game),
                     f_developer := str_or_empty (g_developer game),
                     f_publisher := str_or_empty (g_publisher game),
                     f_progress :=
                       String (case g_progress_percent game of None \<Rightarrow> Finite 0 | Some p \<Rightarrow> p),
                     f_playtime :=
                       (case g_playtime_hours game of None \<Rightarrow> [] | Some h \<Rightarrow> String h),
                     f_notes := str_or_empty (g_notes game),
                     f_cover_art_path := str_or_empty (g_cover_art_path game),
                     statusPicker := toggle_status (g_status game) (statusPicker pg1),
                     modal_open := True\<rparr>,
                 st1\<lparr>formGenres := g_genres game,
                      formRating := g_rating game\<rparr>)))"

text \<open>
  Genre tags. A key press in \<open>#genreInput\<close> carries \<open>e.key\<close> and the field's value; a
  click on a tag's remove button carries the button's \<open>dataset.genre\<close>.
\<close>

datatype genre_event = Key_down string string | Remove_click string

fun genre_step :: "app_state \<Rightarrow> genre_event \<Rightarrow> app_state" where
  "genre_step st (Key_down key v) =
     (if key = ''Enter'' \<or> key = '',''
      then (let t = trim v
            in if t \<noteq> [] \<and> t \<notin> set (formGenres st)
               then st\<lparr>formGenres := formGenres st @ [t]\<rparr>
               else st)
      else st)"
| "genre_step st (Remove_click d) = st\<lparr>formGenres := filter (\<lambda>x. x \<noteq> d) (formGenres st)\<rparr>"

text \<open>The \<open>input\<close> object of the form's submit handler.\<close>

record game_input =
  in_title :: string
  in_franchise :: "string option"
  in_sequence_in_franchise :: "number option"
  in_release_date :: "string option"
  in_platform :: string
  in_status :: string
  in_progress_percent :: "number option"
  in_playtime_hours :: "number option"
  in_rating :: "number option"
  in_notes :: "string option"
  in_cover_art_path :: "string option"
  in_screenshots :: "string list"
  in_developer :: "string option"
  in_publisher :: "string option"
  in_genres :: "string list"

text \<open>
  \<open>$("statusPicker").querySelector(".status-opt.active")?.dataset.val ?? "NotStarted"\<close>:
  the first active button in document order, if any, and its \<open>dataset.val\<close>, if any.
\<close>

definition picked_status :: "status_opt list \<Rightarrow> string" where
  "picked_status bs =
     (case find active bs of
        None \<Rightarrow> ''NotStarted''
      | Some b \<Rightarrow> (case val b of None \<Rightarrow> ''NotStarted'' | Some v \<Rightarrow> v))"

text \<open>
  The object literal. \<open>parseInt\<close> and \<open>parseFloat\<close> are the language's own functions
  and are parameters: each returns a number, \<open>NaN\<close> for text that holds none.
\<close>

definition form_input ::
  "(string \<Rightarrow> number) \<Rightarrow> (string \<Rightarrow> number) \<Rightarrow> page \<Rightarrow> app_state \<Rightarrow> game_input" where
  "form_input parseInt parseFloat pg st =
     \<lparr>in_title = trim (f_title pg),
      in_franchise = or_null (trim (f_franchise pg)),
      in_sequence_in_franchise =
        (if f_sequence pg \<noteq> [] then Some (parseInt (f_sequence pg)) else None),
      in_release_date = or_null (f_release_date pg),
      in_platform = trim (f_platform pg),
      in_status = picked_status (statusPicker pg),
      in_progress_percent = Some (parseFloat (f_progress pg)),
      in_playtime_hours =
        (if f_playtime pg \<noteq> [] then Some (parseFloat (f_playtime pg)) else None),
      in_rating = formRating st,
      in_notes = or_null (trim (f_notes pg)),
      in_cover_art_path = or_null (f_cover_art_path pg),
      in_screenshots = [],
      in_developer = or_null (trim (f_developer pg)),
      in_publisher = or_null (trim (f_publisher pg)),
      in_genres = formGenres st\<rparr>"

text \<open>
  The submit handler up to its call of the backend: the cover image is processed first
  (\<open>process_cover_image\<close> is the backend's command, a parameter; when it rejects, the
  game is saved without cover art), then \<open>update_game\<close> is invoked when
  \<open>state.editingGameId\<close> is truthy and \<open>add_game\<close> otherwise.
\<close>

datatype command = Add_game game_input | Update_game int game_input

fun command_input :: "command \<Rightarrow> game_input" where
  "command_input (Add_game inp) = inp"
| "command_input (Update_game i inp) = inp"

definition submit ::
  "(string \<Rightarrow> number) \<Rightarrow> (string \<Rightarrow> number) \<Rightarrow> (string \<Rightarrow> string settled) \<Rightarrow> page \<Rightarrow> app_state
     \<Rightarrow> command \<times> effect list" where
  "submit parseInt parseFloat process_cover_image pg st =
     (let input = form_input parseInt parseFloat pg st;
          (input1, effs) =
            (case in_cover_art_path input of
               None \<Rightarrow> (input, [])
             | Some p \<Rightarrow>
                 (case process_cover_image p of
                    Resolved processedPath \<Rightarrow>
                      (input\<lparr>in_cover_art_path := Some processedPath\<rparr>,
                       [Invoke_process_cover_image p])
                  | Rejected imgErr \<Rightarrow>
                      (input\<lparr>in_cover_art_path := None\<rparr>,
                       [Invoke_process_cover_image p,
                        Console_error ''Image processing failed:'' imgErr,
                        Show_toast ''Warning: Could not process cover image'' ''error''])))
      in (case editingGameId st of
            None \<Rightarrow> Add_game input1
          | Some i \<Rightarrow> if i = 0 then Add_game input1 else Update_game i input1,
          effs))"

section \<open>The backend, as the specification describes it\<close>

text \<open>
  Modelled from the spec: the repository's \<open>update(id, input)\<close> (the backend command
  \<open>update_game\<close> is Rust code that is not among the sources). It "fails with
  NotFoundError if id absent. Otherwise replaces all mutable fields wholesale with
  input's values (full-replace, not merge -- fields absent in input are treated as
  explicitly null/cleared), sets updated_at = now, replaces the genre set". The id and
  \<open>created_at\<close> are the immutable fields. The store maps an id to its game.
\<close>

datatype repo_error = NotFoundError | ValidationError | StorageError

definition update ::
  "string \<Rightarrow> int \<Rightarrow> game_input \<Rightarrow> (int \<rightharpoonup> game) \<Rightarrow> repo_error + game \<times> (int \<rightharpoonup> game)" where
  "update now i inp store =
     (case store i of
        None \<Rightarrow> Inl NotFoundError
      | Some g \<Rightarrow>
          (let g' =
                 \<lparr>g_id = g_id g,
                  g_title = in_title inp,
                  g_franchise = in_franchise inp,
                  g_sequence_in_franchise = in_sequence_in_franchise inp,
                  g_platform = in_platform inp,
                  g_release_date = in_release_date inp,
                  g_developer = in_developer inp,
                  g_publisher = in_publisher inp,
                  g_status = in_status inp,
                  g_progress_percent = in_progress_percent inp,
                  g_playtime_hours = in_playtime_hours inp,
                  g_rating = in_rating inp,
                  g_notes = in_notes inp,
                  g_cover_art_path = in_cover_art_path inp,
                  g_screenshots = in_screenshots inp,
                  g_genres = in_genres inp,
                  g_created_at = g_created_at g,
                  g_updated_at = now\<rparr>
           in Inr (g', store(i \<mapsto> g'))))"

text \<open>
  Modelled from the spec: the names under which the \<open>by_status\<close> field of the
  statistics holds its counts (the backend command \<open>get_stats\<close> is not among the
  sources). The spec lists the six status values; the property names are the ones
  \<open>renderStats\<close> reads, each beside the status it is labelled with.
\<close>

definition by_status_names :: "(string \<times> string) list" where
  "by_status_names =
     [(''NotStarted'', ''not_started''), (''Playing'', ''playing''),
      (''Completed'', ''completed''), (''Dropped'', ''dropped''),
      (''Backlog'', ''backlog''), (''Wishlist'', ''wishlist'')]"

text \<open>
  Modelled from the spec: the count of the games of one status, over the whole
  collection (\<open>get_stats\<close> is not among the sources).
\<close>

definition count_status :: "string \<Rightarrow> game list \<Rightarrow> nat" where
  "count_status s gs = length (filter (\<lambda>g. g_status g = s) gs)"

text \<open>
  Modelled from the spec: the \<open>by_status\<close> field of the statistics (\<open>get_stats\<close> is not
  among the sources): "count per each of the six status values (all six always present,
  zero-filled)". The object is the association list of its properties.
\<close>

definition by_status :: "game list \<Rightarrow> (string \<times> nat) list" where
  "by_status gs = map (\<lambda>(s, name). (name, count_status s gs)) by_status_names"

section \<open>Example data\<close>

definition ex_game :: game where
  "ex_game =
     \<lparr>g_id = 1, g_title = ''Hades'', g_franchise = None, g_sequence_in_franchise = None,
      g_platform = ''PC'', g_release_date = Some ''2020-09-17'',
      g_developer = Some ''Supergiant'', g_publisher = None, g_status = ''Backlog'',
      g_progress_percent = None, g_playtime_hours = Some (Finite 12),
      g_rating = Some (Finite 9), g_notes = None,
      g_cover_art_path = Some ''https://img.example/hades.png'',
      g_screenshots = [''shot1.png''], g_genres = [''Roguelike'', ''Action''],
      g_created_at = ''2024-01-01'', g_updated_at = ''2024-01-02''\<rparr>"

definition ex_wish :: game where
  "ex_wish = ex_game\<lparr>g_id := 2, g_title := ''Silksong'', g_status := ''Wishlist'',
                     g_screenshots := [], g_genres := [''Metroidvania'']\<rparr>"

definition ex_state :: app_state where
  "ex_state = initial_state\<lparr>games := [ex_game, ex_wish]\<rparr>"

definition ex_picker :: "status_opt list" where
  "ex_picker = map (\<lambda>s. \<lparr>val = Some s, active = False\<rparr>) status_values"

definition ex_page :: page where
  "ex_page =
     \<lparr>f_title = '' Hades '', f_franchise = [], f_sequence = [], f_platform = ''PC'',
      f_release_date = [], f_developer = [], f_publisher = [], f_progress = ''40'',
      f_playtime = [], f_notes = [], f_cover_art_path = [],
      statusPicker = ex_picker, modal_open = True\<rparr>"

definition ex_reset :: "page \<Rightarrow> page" where
  "ex_reset pg = ex_page\<lparr>f_title := [], f_platform := [], f_progress := ''0'',
                         statusPicker := statusPicker pg, modal_open := modal_open pg\<rparr>"

definition ex_parse :: "string \<Rightarrow> number" where
  "ex_parse s = (if s = ''0'' then Finite 0 else if s = ''40'' then Finite 40 else NaN)"

definition ex_String :: "number \<Rightarrow> string" where
  "ex_String n = (if n = Finite 0 then ''0'' else if n = Finite 12 then ''12'' else ''NaN'')"

definition ex_cover :: "string \<Rightarrow> string settled" where
  "ex_cover p = Resolved (''/data/covers/'' @ p)"

definition ex_asset :: "string \<Rightarrow> string" where
  "ex_asset p = ''asset://localhost/'' @ p"

definition ex_events :: "genre_event list" where
  "ex_events =
     [Key_down ''Enter'' '' Action '', Key_down '','' ''Indie'', Remove_click ''Roguelike'',
      Key_down ''a'' ''Roguelike'']"

section \<open>Auxiliary lemmas\<close>

lemma or_null_None: "(or_null s = None) = (s = [])"
  by (simp add: or_null_def)

lemma or_null_Some: "s \<noteq> [] \<Longrightarrow> or_null s = Some s"
  by (simp add: or_null_def)

lemma or_null_str_or_empty: "x \<noteq> Some [] \<Longrightarrow> or_null (str_or_empty x) = x"
  by (cases x) (simp_all add: or_null_def str_or_empty_def)

lemma loadGames_invokes:
  "\<exists>rest. snd (loadGames sg st) = Invoke_search_games (search_filter_of (currentFilter st)) # rest"
  by (simp add: loadGames_def Let_def split: settled.split)

lemma find_none_iff: "(find P xs = None) = (\<forall>x \<in> set xs. \<not> P x)"
  by (induction xs) auto

lemma genre_step_distinct:
  "distinct (formGenres st) \<Longrightarrow> distinct (formGenres (genre_step st ev))"
  by (cases ev) (simp_all add: Let_def)

lemma genre_steps_distinct:
  "distinct (formGenres st) \<Longrightarrow> distinct (formGenres (foldl genre_step st evs))"
  by (induction evs arbitrary: st) (simp_all add: genre_step_distinct)

lemma openModal_formGenres:
  "formGenres (snd (openModal reset String ident pg st)) = [] \<or>
   (\<exists>g. ident \<noteq> Some 0 \<and> find (\<lambda>g. Some (g_id g) = ident) (games st) = Some g \<and>
        formGenres (snd (openModal reset String ident pg st)) = g_genres g)"
  by (auto simp: openModal_def Let_def split: option.splits)

lemma submit_in_genres:
  "in_genres (command_input (fst (submit pI pF pc pg st))) = formGenres st"
  by (simp add: submit_def form_input_def Let_def split: option.splits settled.splits)

lemma submit_in_status:
  "in_status (command_input (fst (submit pI pF pc pg st))) = picked_status (statusPicker pg)"
  by (simp add: submit_def form_input_def Let_def split: option.splits settled.splits)

lemma submit_in_progress:
  "in_progress_percent (command_input (fst (submit pI pF pc pg st))) = Some (pF (f_progress pg))"
  by (simp add: submit_def form_input_def Let_def split: option.splits settled.splits)

lemma submit_in_screenshots:
  "in_screenshots (command_input (fst (submit pI pF pc pg st))) = []"
  by (simp add: submit_def form_input_def Let_def split: option.splits settled.splits)

lemma ex_state_games: "games ex_state = [ex_game, ex_wish]"
  by (simp add: ex_state_def)

lemma ex_find_game: "find (\<lambda>g. g_id g = 1) (games ex_state) = Some ex_game"
  by (simp add: ex_state_def ex_game_def)

lemma ex_openModal_genres:
  "formGenres (snd (openModal ex_reset ex_String (Some 1) ex_page ex_state)) =
     [''Roguelike'', ''Action'']"
  by (simp add: openModal_def Let_def ex_state_def initial_state_def ex_game_def ex_wish_def)

lemma ex_events_genres:
  "formGenres (foldl genre_step (snd (openModal ex_reset ex_String (Some 1) ex_page ex_state))
     ex_events) = [''Action'', ''Indie'']"
proof -
  have t: "trim '' Action '' = ''Action''" "trim ''Indie'' = ''Indie''"
    by (simp_all add: trim_def is_space_def)
  show ?thesis
    by (simp add: ex_events_def ex_openModal_genres t Let_def)
qed

section \<open>The filter passed to the search (C1)\<close>

text \<open>
  C1. The filter object that \<open>loadGames\<close> passes to \<open>search_games\<close> is built from
  \<open>state.currentFilter\<close>: each of \<open>query\<close>, \<open>status\<close>, \<open>platform\<close>, \<open>franchise\<close>, \<open>genre\<close>
  is \<open>null\<close> exactly when the field of the current filter is the empty string and is the
  field's value otherwise; \<open>sort_by\<close> and \<open>sort_asc\<close> are always carried. Every choice
  of predicates (each either absent or a non-empty string) is the filter of some state
  of the current filter, so any subset of them, the empty one too, can be supplied.
\<close>

theorem loadGames_filter_fields:
  "(\<exists>rest. snd (loadGames search_games st) =
       Invoke_search_games (search_filter_of (currentFilter st)) # rest) \<and>
   (query (search_filter_of f) = None \<longleftrightarrow> cf_query f = []) \<and>
   (cf_query f \<noteq> [] \<longrightarrow> query (search_filter_of f) = Some (cf_query f)) \<and>
   (status (search_filter_of f) = None \<longleftrightarrow> cf_status f = []) \<and>
   (cf_status f \<noteq> [] \<longrightarrow> status (search_filter_of f) = Some (cf_status f)) \<and>
   (platform (search_filter_of f) = None \<longleftrightarrow> cf_platform f = []) \<and>
   (cf_platform f \<noteq> [] \<longrightarrow> platform (search_filter_of f) = Some (cf_platform f)) \<and>
   (franchise (search_filter_of f) = None \<longleftrightarrow> cf_franchise f = []) \<and>
   (cf_franchise f \<noteq> [] \<longrightarrow> franchise (search_filter_of f) = Some (cf_franchise f)) \<and>
   (genre (search_filter_of f) = None \<longleftrightarrow> cf_genre f = []) \<and>
   (cf_genre f \<noteq> [] \<longrightarrow> genre (search_filter_of f) = Some (cf_genre f)) \<and>
   sort_by (search_filter_of f) = sortBy f \<and>
   sort_asc (search_filter_of f) = sortAsc f \<and>
   (q \<noteq> Some [] \<and> s \<noteq> Some [] \<and> p \<noteq> Some [] \<and> fr \<noteq> Some [] \<and> g \<noteq> Some [] \<longrightarrow>
      search_filter_of
        \<lparr>cf_query = str_or_empty q, cf_status = str_or_empty s, cf_platform = str_or_empty p,
         cf_franchise = str_or_empty fr, cf_genre = str_or_empty g, sortBy = sb, sortAsc = sa\<rparr>
      = \<lparr>query = q, status = s, platform = p, franchise = fr, genre = g,
         sort_by = sb, sort_asc = sa\<rparr>)"
  using loadGames_invokes [of search_games st]
  by (simp add: search_filter_of_def or_null_None or_null_Some or_null_str_or_empty)

text \<open>
  With only the status chip set, the call carries \<open>status\<close> alone; with every field set,
  all five predicates are carried; with none set (and the same for the subset
  \<open>{query, genre}\<close>), the filter of the corresponding state is reached.
\<close>

theorem loadGames_filter_fields_witness:
  "snd (loadGames (\<lambda>f. Resolved [ex_game])
          (ex_state\<lparr>currentFilter := (currentFilter ex_state)\<lparr>cf_status := ''Backlog''\<rparr>\<rparr>)) =
     [Invoke_search_games
        \<lparr>query = None, status = Some ''Backlog'', platform = None, franchise = None,
         genre = None, sort_by = ''UpdatedAt'', sort_asc = False\<rparr>] \<and>
   search_filter_of
     \<lparr>cf_query = ''zelda'', cf_status = ''Playing'', cf_platform = ''Switch'',
      cf_franchise = ''Zelda'', cf_genre = ''RPG'', sortBy = ''Title'', sortAsc = True\<rparr> =
     \<lparr>query = Some ''zelda'', status = Some ''Playing'', platform = Some ''Switch'',
      franchise = Some ''Zelda'', genre = Some ''RPG'', sort_by = ''Title'', sort_asc = True\<rparr> \<and>
   search_filter_of
     \<lparr>cf_query = ''zelda'', cf_status = [], cf_platform = [], cf_franchise = [],
      cf_genre = ''RPG'', sortBy = ''Rating'', sortAsc = False\<rparr> =
     \<lparr>query = Some ''zelda'', status = None, platform = None, franchise = None,
      genre = Some ''RPG'', sort_by = ''Rating'', sort_asc = False\<rparr>"
  using
    loadGames_filter_fields [where search_games = "\<lambda>f. Resolved [ex_game]"
      and st = "ex_state\<lparr>currentFilter := (currentFilter ex_state)\<lparr>cf_status := ''Backlog''\<rparr>\<rparr>"
      and f = "\<lparr>cf_query = ''zelda'', cf_status = ''Playing'', cf_platform = ''Switch'',
        cf_franchise = ''Zelda'', cf_genre = ''RPG'', sortBy = ''Title'', sortAsc = True\<rparr>"
      and q = "Some ''zelda''" and s = None and p = None and fr = None and g = "Some ''RPG''"
      and sb = "''Rating''" and sa = False]
  by (simp add: loadGames_def Let_def search_filter_of_def or_null_def ex_state_def
      initial_state_def str_or_empty_def)

section \<open>Saving an edit replaces the stored game (C2)\<close>

text \<open>
  C2. \<open>update(id, input)\<close> replaces every mutable field of the stored game with the
  value \<open>input\<close> holds for it (a field that \<open>input\<close> leaves \<open>null\<close> is cleared, nothing
  is merged), keeping only the id and \<open>created_at\<close>. Every submission of the game form,
  add or edit, sends \<open>screenshots = []\<close>; hence saving an edit through the form leaves
  the stored game without screenshots, whatever it had before.
\<close>

theorem update_form_clears_screenshots:
  "in_screenshots (command_input (fst (submit pI pF pc pg st))) = [] \<and>
   (store i = Some g \<longrightarrow>
      (\<exists>g'. update now i inp store = Inr (g', store(i \<mapsto> g')) \<and>
         g_id g' = g_id g \<and> g_created_at g' = g_created_at g \<and> g_updated_at g' = now \<and>
         g_title g' = in_title inp \<and> g_franchise g' = in_franchise inp \<and>
         g_sequence_in_franchise g' = in_sequence_in_franchise inp \<and>
         g_platform g' = in_platform inp \<and> g_release_date g' = in_release_date inp \<and>
         g_developer g' = in_developer inp \<and> g_publisher g' = in_publisher inp \<and>
         g_status g' = in_status inp \<and> g_progress_percent g' = in_progress_percent inp \<and>
         g_playtime_hours g' = in_playtime_hours inp \<and> g_rating g' = in_rating inp \<and>
         g_notes g' = in_notes inp \<and> g_cover_art_path g' = in_cover_art_path inp \<and>
         g_screenshots g' = in_screenshots inp \<and> g_genres g' = in_genres inp)) \<and>
   (store i = Some g \<and> fst (submit pI pF pc pg st) = Update_game i inp \<longrightarrow>
      (\<exists>g'. update now i inp store = Inr (g', store(i \<mapsto> g')) \<and> g_screenshots g' = []))"
proof -
  have shots: "in_screenshots (command_input (fst (submit pI pF pc pg st))) = []"
    by (rule submit_in_screenshots)
  have "in_screenshots inp = []" if "fst (submit pI pF pc pg st) = Update_game i inp"
    using shots that by simp
  then show ?thesis
    using shots by (simp add: update_def Let_def)
qed

text \<open>
  The stored game 1 has one screenshot; the form, opened for game 1 and submitted,
  invokes \<open>update_game\<close> for it, and the updated game has none.
\<close>

theorem update_form_clears_screenshots_witness:
  "g_screenshots ex_game = [''shot1.png''] \<and>
   fst (submit ex_parse ex_parse ex_cover ex_page (ex_state\<lparr>editingGameId := Some 1\<rparr>)) =
     Update_game 1 (form_input ex_parse ex_parse ex_page (ex_state\<lparr>editingGameId := Some 1\<rparr>)) \<and>
   (\<exists>g'. update ''2024-02-02'' 1
            (form_input ex_parse ex_parse ex_page (ex_state\<lparr>editingGameId := Some 1\<rparr>))
            [1 \<mapsto> ex_game] =
          Inr (g', [1 \<mapsto> ex_game](1 \<mapsto> g')) \<and> g_screenshots g' = [])"
proof -
  have a: "[1 \<mapsto> ex_game] (1::int) = Some ex_game" by simp
  have b: "fst (submit ex_parse ex_parse ex_cover ex_page (ex_state\<lparr>editingGameId := Some 1\<rparr>)) =
     Update_game 1 (form_input ex_parse ex_parse ex_page (ex_state\<lparr>editingGameId := Some 1\<rparr>))"
    by (simp add: submit_def Let_def form_input_def ex_page_def or_null_def)
  have c: "g_screenshots ex_game = [''shot1.png'']" by (simp add: ex_game_def)
  show ?thesis
    using a b c
      update_form_clears_screenshots [where pI = ex_parse and pF = ex_parse and pc = ex_cover
        and pg = ex_page and st = "ex_state\<lparr>editingGameId := Some 1\<rparr>"
        and store = "[1 \<mapsto> ex_game]" and i = 1 and g = ex_game and now = "''2024-02-02''"
        and inp = "form_input ex_parse ex_parse ex_page (ex_state\<lparr>editingGameId := Some 1\<rparr>)"]
    by blast
qed

section \<open>Unrecognized status values (C3)\<close>

text \<open>
  C3, as the code has it. An unrecognized status is not refused: for every string that
  is none of the six status values (nor the name of a member of \<open>Object.prototype\<close>),
  \<open>statusClass\<close> falls back to \<open>status--notstarted\<close> and \<open>statusLabel\<close> returns the
  string itself.
\<close>

theorem status_unrecognized_fallback:
  "s \<notin> set status_values \<and> s \<notin> set object_prototype_keys \<longrightarrow>
     statusClass s = Text ''status--notstarted'' \<and> statusLabel s = Text s"
  by (simp add: statusClass_def statusLabel_def lookup_or_def status_values_def)

theorem status_unrecognized_fallback_witness:
  "statusClass ''Unknown'' = Text ''status--notstarted'' \<and>
   statusLabel ''Unknown'' = Text ''Unknown''"
  using status_unrecognized_fallback [of "''Unknown''"]
  by (simp add: status_values_def object_prototype_keys_def)

text \<open>
  The claim as stated fails at the status \<open>Paused\<close>, which is none of the six values:
  it is displayed with the fallback class and under its own name, it is sent to the
  backend as the \<open>status\<close> predicate of a search when the current filter holds it, and
  it is sent as the \<open>status\<close> of a submitted game when the active option of the status
  picker carries it. Nothing refuses it.
\<close>

theorem status_not_refused_counterexample:
  "''Paused'' \<notin> set status_values \<and>
   statusClass ''Paused'' = Text ''status--notstarted'' \<and>
   statusLabel ''Paused'' = Text ''Paused'' \<and>
   status (search_filter_of ((currentFilter ex_state)\<lparr>cf_status := ''Paused''\<rparr>)) =
     Some ''Paused'' \<and>
   in_status (command_input (fst (submit ex_parse ex_parse ex_cover
       (ex_page\<lparr>statusPicker := [\<lparr>val = Some ''Paused'', active = True\<rparr>]\<rparr>) ex_state))) =
     ''Paused''"
  by (simp add: status_values_def statusClass_def statusLabel_def lookup_or_def
      object_prototype_keys_def search_filter_of_def or_null_def submit_in_status
      picked_status_def)

section \<open>Resolving the cover art path (C4)\<close>

text \<open>
  C4. \<open>resolveCover\<close> returns \<open>null\<close> for an absent or empty path, the path itself when
  it starts with \<open>http://\<close> or \<open>https://\<close>, and \<open>convertFileSrc\<close> of the path otherwise.
  Since \<open>convertFileSrc\<close> is Tauri's, "unchanged if and only if remote" is stated for
  every path that \<open>convertFileSrc\<close> does not map to itself.
\<close>

theorem resolveCover_cases:
  "resolveCover cfs None = None \<and>
   resolveCover cfs (Some []) = None \<and>
   (is_remote p \<longrightarrow> resolveCover cfs (Some p) = Some p) \<and>
   (p \<noteq> [] \<and> \<not> is_remote p \<longrightarrow> resolveCover cfs (Some p) = Some (cfs p)) \<and>
   (p \<noteq> [] \<and> cfs p \<noteq> p \<longrightarrow> (resolveCover cfs (Some p) = Some p \<longleftrightarrow> is_remote p))"
  by (auto simp: resolveCover_def is_remote_def startsWith_def)

theorem resolveCover_cases_witness:
  "resolveCover ex_asset (Some ''https://img.example/hades.png'') =
     Some ''https://img.example/hades.png'' \<and>
   resolveCover ex_asset (Some ''http://img.example/hades.png'') =
     Some ''http://img.example/hades.png'' \<and>
   resolveCover ex_asset (Some ''/home/u/cover.png'') =
     Some ''asset://localhost//home/u/cover.png'' \<and>
   resolveCover ex_asset (Some ''/home/u/cover.png'') \<noteq> Some ''/home/u/cover.png''"
  using resolveCover_cases [of ex_asset "''https://img.example/hades.png''"]
    resolveCover_cases [of ex_asset "''http://img.example/hades.png''"]
    resolveCover_cases [of ex_asset "''/home/u/cover.png''"]
  by (simp add: is_remote_def startsWith_def ex_asset_def)

section \<open>Genre tags stay free of duplicates (C5)\<close>

text \<open>
  C5. When the game that \<open>openModal\<close> loads (if any) has distinct genres, then after
  every sequence of key presses in the genre input and clicks on remove buttons,
  \<open>state.formGenres\<close> has no duplicates, and so has the \<open>genres\<close> list of the input
  submitted with \<open>add_game\<close> or \<open>update_game\<close>. A trimmed value that is already present
  is not appended again, and a removal filters the list by the value.
\<close>

theorem formGenres_distinct:
  assumes "\<forall>g. ident \<noteq> Some 0 \<and> find (\<lambda>g. Some (g_id g) = ident) (games st) = Some g
             \<longrightarrow> distinct (g_genres g)"
  shows "distinct (formGenres (foldl genre_step (snd (openModal reset String ident pg st)) evs)) \<and>
         (formGenres s = formGenres (foldl genre_step (snd (openModal reset String ident pg st)) evs)
            \<longrightarrow> distinct (in_genres (command_input (fst (submit pI pF pc pgs s))))) \<and>
         (trim v \<in> set (formGenres s) \<longrightarrow> genre_step s (Key_down k v) = s) \<and>
         formGenres (genre_step s (Remove_click d)) = filter (\<lambda>x. x \<noteq> d) (formGenres s)"
proof -
  have "distinct (formGenres (snd (openModal reset String ident pg st)))"
    using assms openModal_formGenres [of reset String ident pg st] by auto
  then have "distinct (formGenres (foldl genre_step (snd (openModal reset String ident pg st)) evs))"
    by (rule genre_steps_distinct)
  then show ?thesis by (simp add: submit_in_genres Let_def)
qed

text \<open>
  Game 1 is loaded with the genres Roguelike and Action; adding "Action" again changes
  nothing, "Indie" is appended, Roguelike is removed, and a key other than Enter or
  comma adds nothing.
\<close>

theorem formGenres_distinct_witness:
  "formGenres (foldl genre_step (snd (openModal ex_reset ex_String (Some 1) ex_page ex_state))
     ex_events) = [''Action'', ''Indie''] \<and>
   distinct
     (in_genres (command_input (fst (submit ex_parse ex_parse ex_cover ex_page
        (foldl genre_step (snd (openModal ex_reset ex_String (Some 1) ex_page ex_state))
           ex_events)))))"
proof -
  have h: "\<forall>g. Some (1::int) \<noteq> Some 0 \<and>
      find (\<lambda>g. Some (g_id g) = Some 1) (games ex_state) = Some g \<longrightarrow> distinct (g_genres g)"
    by (simp add: ex_find_game) (simp add: ex_game_def)
  show ?thesis
    using ex_events_genres
      formGenres_distinct [OF h, where reset = ex_reset and String = ex_String
        and pg = ex_page and evs = ex_events
        and s = "foldl genre_step (snd (openModal ex_reset ex_String (Some 1) ex_page ex_state))
                   ex_events"
        and pI = ex_parse and pF = ex_parse and pc = ex_cover and pgs = ex_page]
    by simp
qed

section \<open>The submitted status (C6)\<close>

text \<open>
  C6. When no option of the status picker is active, the input sent to \<open>add_game\<close> or
  \<open>update_game\<close> has the status \<open>NotStarted\<close>; when an option is active, the status
  sent is the value of the (first) active option.
\<close>

theorem submit_status_default:
  "((\<forall>b \<in> set (statusPicker pg). \<not> active b) \<longrightarrow>
      in_status (command_input (fst (submit pI pF pc pg st))) = ''NotStarted'') \<and>
   (find active (statusPicker pg) = Some b \<and> val b = Some v \<longrightarrow>
      in_status (command_input (fst (submit pI pF pc pg st))) = v)"
proof -
  have "find active (statusPicker pg) = None" if "\<forall>b \<in> set (statusPicker pg). \<not> active b"
    using that by (simp add: find_none_iff)
  then show ?thesis
    by (auto simp: submit_in_status picked_status_def)
qed

theorem submit_status_default_witness:
  "in_status (command_input (fst (submit ex_parse ex_parse ex_cover ex_page ex_state))) =
     ''NotStarted'' \<and>
   in_status (command_input (fst (submit ex_parse ex_parse ex_cover
      (ex_page\<lparr>statusPicker := toggle_status ''Completed'' ex_picker\<rparr>) ex_state))) =
     ''Completed''"
proof -
  have a: "\<forall>b \<in> set (statusPicker ex_page). \<not> active b"
    by (simp add: ex_page_def ex_picker_def)
  have b: "find active (statusPicker (ex_page\<lparr>statusPicker := toggle_status ''Completed'' ex_picker\<rparr>))
      = Some \<lparr>val = Some ''Completed'', active = True\<rparr> \<and>
      val \<lparr>val = Some ''Completed'', active = True\<rparr> = Some ''Completed''"
    by (simp add: ex_picker_def toggle_status_def status_values_def)
  show ?thesis
    using a b
      submit_status_default [where pg = ex_page and pI = ex_parse and pF = ex_parse
        and pc = ex_cover and st = ex_state]
      submit_status_default
        [where pg = "ex_page\<lparr>statusPicker := toggle_status ''Completed'' ex_picker\<rparr>"
        and pI = ex_parse and pF = ex_parse and pc = ex_cover and st = ex_state
        and b = "\<lparr>val = Some ''Completed'', active = True\<rparr>" and v = "''Completed''"]
    by blast
qed

section \<open>The six counts by status (C7)\<close>

text \<open>
  C7. \<open>by_status\<close> holds a count under each of the six names \<open>playing\<close>, \<open>completed\<close>,
  \<open>backlog\<close>, \<open>wishlist\<close>, \<open>dropped\<close>, \<open>not_started\<close>, whatever the collection (all of
  them zero for the empty one), and the "By Status" card of \<open>renderStats\<close> shows exactly
  these six counts, each under its label.
\<close>

theorem by_status_six_counts:
  "map_of (by_status gs) ''playing'' = Some (count_status ''Playing'' gs) \<and>
   map_of (by_status gs) ''completed'' = Some (count_status ''Completed'' gs) \<and>
   map_of (by_status gs) ''backlog'' = Some (count_status ''Backlog'' gs) \<and>
   map_of (by_status gs) ''wishlist'' = Some (count_status ''Wishlist'' gs) \<and>
   map_of (by_status gs) ''dropped'' = Some (count_status ''Dropped'' gs) \<and>
   map_of (by_status gs) ''not_started'' = Some (count_status ''NotStarted'' gs) \<and>
   map fst (by_status gs) = map snd by_status_names \<and>
   status_breakdown (by_status gs) =
     [(''Playing'', Some (count_status ''Playing'' gs)),
      (''Completed'', Some (count_status ''Completed'' gs)),
      (''Backlog'', Some (count_status ''Backlog'' gs)),
      (''Wishlist'', Some (count_status ''Wishlist'' gs)),
      (''Dropped'', Some (count_status ''Dropped'' gs)),
      (''Not Started'', Some (count_status ''NotStarted'' gs))] \<and>
   by_status [] = map (\<lambda>(s, name). (name, 0)) by_status_names"
  by (simp add: by_status_def by_status_names_def status_breakdown_def count_status_def)

theorem by_status_six_counts_witness:
  "status_breakdown (by_status [ex_game, ex_wish]) =
     [(''Playing'', Some 0), (''Completed'', Some 0), (''Backlog'', Some 1),
      (''Wishlist'', Some 1), (''Dropped'', Some 0), (''Not Started'', Some 0)]"
  using by_status_six_counts [of "[ex_game, ex_wish]"]
  by (simp add: count_status_def ex_game_def ex_wish_def)

section \<open>A rejected search is reported (C8)\<close>

text \<open>
  C8. When the call of \<open>search_games\<close> rejects, \<open>loadGames\<close> logs the failure to the
  console, shows the error toast "Failed to load games" and sets \<open>state.games\<close> to the
  empty list, so that the next \<open>renderGames\<close> shows no card of an earlier result.
\<close>

theorem loadGames_rejection_reported:
  "search_games (search_filter_of (currentFilter st)) = Rejected e \<Longrightarrow>
     games (fst (loadGames search_games st)) = [] \<and>
     snd (loadGames search_games st) =
       [Invoke_search_games (search_filter_of (currentFilter st)),
        Console_error ''search_games failed:'' e,
        Show_toast ''Failed to load games'' ''error''] \<and>
     cards (renderGames (fst (loadGames search_games st))) = [] \<and>
     empty_shown (renderGames (fst (loadGames search_games st)))"
  by (simp add: loadGames_def Let_def renderGames_def view_filter_def)

theorem loadGames_rejection_reported_witness:
  "games ex_state = [ex_game, ex_wish] \<and>
   games (fst (loadGames (\<lambda>f. Rejected ''database is locked'') ex_state)) = [] \<and>
   snd (loadGames (\<lambda>f. Rejected ''database is locked'') ex_state) =
     [Invoke_search_games (search_filter_of (currentFilter ex_state)),
      Console_error ''search_games failed:'' ''database is locked'',
      Show_toast ''Failed to load games'' ''error''] \<and>
   cards (renderGames (fst (loadGames (\<lambda>f. Rejected ''database is locked'') ex_state))) = []"
  using loadGames_rejection_reported
    [of "\<lambda>f. Rejected ''database is locked''" ex_state "''database is locked''"]
  by (simp add: ex_state_games)

section \<open>The view-level filter (C9)\<close>

text \<open>
  C9. \<open>renderGames\<close> shows, of \<open>state.games\<close> and in its order, the games whose status
  is \<open>Backlog\<close> in the view \<open>backlog\<close>, those whose status is \<open>Wishlist\<close> in the view
  \<open>wishlist\<close>, and all of them in the view \<open>library\<close>; the count it displays is the
  number of games shown.
\<close>

theorem renderGames_view_filter:
  "(activeView st = ''backlog'' \<longrightarrow>
      cards (renderGames st) = filter (\<lambda>g. g_status g = ''Backlog'') (games st)) \<and>
   (activeView st = ''wishlist'' \<longrightarrow>
      cards (renderGames st) = filter (\<lambda>g. g_status g = ''Wishlist'') (games st)) \<and>
   (activeView st = ''library'' \<longrightarrow> cards (renderGames st) = games st) \<and>
   count_text (renderGames st) =
     digits (length (cards (renderGames st))) @ '' game'' @
       (if length (cards (renderGames st)) \<noteq> 1 then ''s'' else [])"
  by (simp add: renderGames_def view_filter_def Let_def)

theorem renderGames_view_filter_witness:
  "cards (renderGames (ex_state\<lparr>activeView := ''backlog''\<rparr>)) = [ex_game] \<and>
   cards (renderGames (ex_state\<lparr>activeView := ''wishlist''\<rparr>)) = [ex_wish] \<and>
   cards (renderGames ex_state) = [ex_game, ex_wish] \<and>
   count_text (renderGames (ex_state\<lparr>activeView := ''backlog''\<rparr>)) = ''1 game'' \<and>
   count_text (renderGames ex_state) = ''2 games''"
proof -
  have d1: "digits (Suc 0) = ''1''" by code_simp
  have d2: "digits (Suc (Suc 0)) = ''2''" by code_simp
  have g: "games ex_state = [ex_game, ex_wish]" "activeView ex_state = ''library''"
    by (simp_all add: ex_state_def initial_state_def)
  have s: "g_status ex_game = ''Backlog''" "g_status ex_wish = ''Wishlist''"
    by (simp_all add: ex_game_def ex_wish_def)
  show ?thesis
    using renderGames_view_filter [of "ex_state\<lparr>activeView := ''backlog''\<rparr>"]
      renderGames_view_filter [of "ex_state\<lparr>activeView := ''wishlist''\<rparr>"]
      renderGames_view_filter [of ex_state]
    by (auto simp: g s d1 d2)
qed

end
